theory Spec2Isabelle
  imports Main "HOL-Library.Sublist"
begin

section \<open>JavaScript values, errors and the API client as the SDKs see it\<close>

text \<open>
  The SDK methods of \<^verbatim>\<open>sdks/projects.ts\<close> and of the registry SDK pass strings, numbers,
  arrays and object literals to the API client.  An object literal is an association list
  in the order in which the source writes its keys.  A JavaScript number is only ever
  passed through unchanged (the \<^verbatim>\<open>flags\<close> of a project token), so it is an integer here.
\<close>

datatype jsval =
    JUndefined
  | JNull
  | JBool bool
  | JNumber int
  | JString string
  | JArray "jsval list"
  | JObject "(string \<times> jsval) list"

text \<open>
  An optional identifier (\<^verbatim>\<open>project?: Id<'project'>\<close>) is \<^verbatim>\<open>undefined\<close> or a string.
  \<open>truthy\<close> is JavaScript's truthiness on such a value, as tested by \<^verbatim>\<open>!project\<close> and
  \<^verbatim>\<open>project ? a : b\<close>: \<^verbatim>\<open>undefined\<close> and the empty string are falsy.  \<open>js\<close> is the value
  itself, as it is stored in an object literal.
\<close>

fun truthy :: "string option \<Rightarrow> bool" where
  "truthy None = False"
| "truthy (Some s) = (s \<noteq> [])"

fun js :: "string option \<Rightarrow> jsval" where
  "js None = JUndefined"
| "js (Some s) = JString s"

text \<open>
  \<open>Error msg\<close> is \<^verbatim>\<open>throw new Error(msg)\<close>, the only error the sources raise themselves.
  \<open>TypeError\<close> is what JavaScript raises when \<^verbatim>\<open>undefined\<close> or \<^verbatim>\<open>null\<close> is destructured.
  The remaining errors are the ones that the specification names for the parts of the
  client that are not in the sources.
\<close>

datatype error =
    Error string
  | TypeError
  | InvalidCredential
  | DecodeError
  | NetworkError
  | APIError nat

datatype auth_type = ptk | pat | bearer

datatype http_method = GET | POST | PUT | PATCH | DELETE

text \<open>
  The options object handed to \<^verbatim>\<open>new APIClient\<close>.  Its type makes \<^verbatim>\<open>authentication\<close> a
  string; at run time the property can be \<^verbatim>\<open>undefined\<close>.
\<close>

record APIClientOptions =
  authentication :: "string option"
  baseUrl :: string

record client =
  authType :: auth_type
  options :: APIClientOptions

type_synonym params = "(string \<times> jsval) list"

text \<open>
  \<^verbatim>\<open>rest/client.ts\<close> is not among the sources.  What an SDK method does with the client is
  therefore recorded, not executed: \<open>client_get path query\<close> is the call
  \<^verbatim>\<open>client.get(path, query)\<close>, and so on, with the arguments in the order of the source.
  The string that \<^verbatim>\<open>client.url(template, query)\<close> computes is represented by its two
  arguments.
\<close>

record url =
  url_template :: string
  url_params :: params

record request =
  req_url :: url
  req_headers :: "(string \<times> string) list"
  req_body :: string
  req_method :: http_method

datatype client_call =
    client_get string params
  | client_post string jsval params
  | client_patch string jsval params
  | client_delete string jsval params
  | client_raw request

text \<open>
  Every SDK method below either throws before it reaches the client, or makes exactly one
  call to the client, awaits it and returns one field of the result:
  \<open>Await call (Some f)\<close> is \<^verbatim>\<open>const {f} = await call; return f\<close> and \<open>Await call None\<close>
  is \<^verbatim>\<open>await call\<close> with nothing returned.
\<close>

datatype outcome =
    Throw error
  | Await client_call "string option"

fun calls :: "outcome \<Rightarrow> client_call list" where
  "calls (Throw e) = []"
| "calls (Await call field) = [call]"

fun call_method :: "client_call \<Rightarrow> http_method" where
  "call_method (client_get path query) = GET"
| "call_method (client_post path body query) = POST"
| "call_method (client_patch path body query) = PATCH"
| "call_method (client_delete path body query) = DELETE"
| "call_method (client_raw r) = req_method r"

fun call_path :: "client_call \<Rightarrow> string" where
  "call_path (client_get path query) = path"
| "call_path (client_post path body query) = path"
| "call_path (client_patch path body query) = path"
| "call_path (client_delete path body query) = path"
| "call_path (client_raw r) = url_template (req_url r)"

fun call_body :: "client_call \<Rightarrow> jsval" where
  "call_body (client_get path query) = JUndefined"
| "call_body (client_post path body query) = body"
| "call_body (client_patch path body query) = body"
| "call_body (client_delete path body query) = body"
| "call_body (client_raw r) = JString (req_body r)"

fun call_params :: "client_call \<Rightarrow> params" where
  "call_params (client_get path query) = query"
| "call_params (client_post path body query) = query"
| "call_params (client_patch path body query) = query"
| "call_params (client_delete path body query) = query"
| "call_params (client_raw r) = url_params (req_url r)"

text \<open>
  The named placeholders of a path template are its segments that start with a colon.
\<close>

fun segments :: "string \<Rightarrow> string list" where
  "segments [] = [[]]"
| "segments (c # cs) =
     (if c = CHR ''/'' then [] # segments cs
      else (case segments cs of [] \<Rightarrow> [[c]] | s # ss \<Rightarrow> (c # s) # ss))"

definition placeholders :: "string \<Rightarrow> string list" where
  "placeholders path = map tl (filter (\<lambda>s. take 1 s = '':'') (segments path))"

section \<open>The projects SDK (sdks/projects.ts)\<close>

subsection \<open>Project tokens\<close>

definition tokens_delete :: "client \<Rightarrow> string \<Rightarrow> string option \<Rightarrow> outcome" where
  "tokens_delete client projectTokenId project =
     (if authType client \<noteq> ptk \<and> \<not> truthy project then
        Throw (Error ''Project ID is required for bearer or PAT authentication to delete a project token'')
      else
        Await (client_delete
                 (if truthy project
                  then ''/v1/projects/:project_id/tokens/:project_token_id''
                  else ''/v1/projects/@this/tokens/:project_token_id'')
                 JUndefined
                 (if truthy project
                  then [(''project_id'', js project), (''project_token_id'', JString projectTokenId)]
                  else [(''project_token_id'', JString projectTokenId)]))
              None)"

definition tokens_get :: "client \<Rightarrow> string option \<Rightarrow> outcome" where
  "tokens_get client projectId =
     (if authType client \<noteq> ptk \<and> \<not> truthy projectId then
        Throw (Error ''Project ID is required for bearer or PAT authentication'')
      else if \<not> truthy projectId then
        Await (client_get ''/v1/projects/@this/tokens'' []) (Some ''project_tokens'')
      else
        Await (client_get ''/v1/projects/:project_id/tokens'' [(''project_id'', js projectId)])
              (Some ''project_tokens''))"

definition tokens_create :: "client \<Rightarrow> int \<Rightarrow> string option \<Rightarrow> outcome" where
  "tokens_create client flags projectId =
     (if \<not> truthy projectId \<and> authType client \<noteq> ptk then
        Throw (Error ''Project ID is required for bearer or PAT authentication to create a project token'')
      else if \<not> truthy projectId then
        Await (client_post ''/v1/projects/@this/tokens'' (JObject [(''flags'', JNumber flags)]) [])
              (Some ''project_token'')
      else
        Await (client_post ''/v1/projects/:project_id/tokens''
                 (JObject [(''flags'', JNumber flags)])
                 [(''project_id'', js projectId)])
              (Some ''project_token''))"

subsection \<open>Webhooks\<close>

definition webhooks_get :: "client \<Rightarrow> string option \<Rightarrow> outcome" where
  "webhooks_get client projectId =
     (if authType client \<noteq> ptk \<and> \<not> truthy projectId then
        Throw (Error ''Project ID is required for bearer or PAT authentication to fetch all project members'')
      else if truthy projectId then
        Await (client_get ''/v1/projects/:project_id/webhooks'' [(''project_id'', js projectId)])
              (Some ''webhooks'')
      else
        Await (client_get ''/v1/projects/@this/webhooks'' []) (Some ''webhooks''))"

definition webhooks_create :: "client \<Rightarrow> string \<Rightarrow> string list \<Rightarrow> string option \<Rightarrow> outcome" where
  "webhooks_create client webhook_url events projectId =
     (if authType client \<noteq> ptk \<and> \<not> truthy projectId then
        Throw (Error ''Project ID is required for bearer or PAT authentication to create a webhook'')
      else if truthy projectId then
        Await (client_post ''/v1/projects/:project_id/webhooks''
                 (JObject [(''webhook_url'', JString webhook_url),
                           (''events'', JArray (map JString events))])
                 [(''project_id'', js projectId)])
              (Some ''webhook'')
      else
        Await (client_post ''/v1/projects/@this/webhooks''
                 (JObject [(''webhook_url'', JString webhook_url),
                           (''events'', JArray (map JString events))])
                 [])
              (Some ''webhook''))"

text \<open>
  The second argument of \<^verbatim>\<open>edit\<close> is an object whose two fields may be \<^verbatim>\<open>undefined\<close>.
\<close>

fun js_events :: "string list option \<Rightarrow> jsval" where
  "js_events None = JUndefined"
| "js_events (Some events) = JArray (map JString events)"

definition webhooks_edit ::
  "client \<Rightarrow> string \<Rightarrow> string option \<Rightarrow> string list option \<Rightarrow> string option \<Rightarrow> outcome" where
  "webhooks_edit client webhookId webhookUrl events projectId =
     (if authType client \<noteq> ptk \<and> \<not> truthy projectId then
        Throw (Error ''Project ID is required for bearer or PAT authentication to edit a webhook'')
      else if truthy projectId then
        Await (client_patch ''/v1/projects/:project_id/webhooks/:webhook_id''
                 (JObject [(''webhook_url'', js webhookUrl), (''events'', js_events events)])
                 [(''project_id'', js projectId), (''webhook_id'', JString webhookId)])
              (Some ''webhook'')
      else
        Await (client_patch ''/v1/projects/@this/webhooks/:webhook_id''
                 (JObject [(''webhook_url'', js webhookUrl), (''events'', js_events events)])
                 [(''webhook_id'', JString webhookId)])
              (Some ''webhook''))"

definition webhooks_delete :: "client \<Rightarrow> string \<Rightarrow> string option \<Rightarrow> outcome" where
  "webhooks_delete client webhookId projectId =
     (if authType client \<noteq> ptk \<and> \<not> truthy projectId then
        Throw (Error ''Project ID is required for bearer or PAT authentication to delete a webhook'')
      else if truthy projectId then
        Await (client_delete ''/v1/projects/:project_id/webhooks/:webhook_id'' JUndefined
                 [(''project_id'', js projectId), (''webhook_id'', JString webhookId)])
              None
      else
        Await (client_delete ''/v1/projects/@this/webhooks/:webhook_id'' JUndefined
                 [(''webhook_id'', JString webhookId)])
              None)"

definition webhooks_regenerateSecret :: "client \<Rightarrow> string \<Rightarrow> string option \<Rightarrow> outcome" where
  "webhooks_regenerateSecret client webhookId projectId =
     (if authType client \<noteq> ptk \<and> \<not> truthy projectId then
        Throw (Error ''Project ID is required for bearer or PAT authentication to regenerate a webhook secret'')
      else if truthy projectId then
        Await (client_post ''/v1/projects/:project_id/webhooks/:webhook_id/regenerate'' JUndefined
                 [(''project_id'', js projectId), (''webhook_id'', JString webhookId)])
              (Some ''secret'')
      else
        Await (client_post ''/v1/projects/@this/webhooks/:webhook_id/regenerate'' JUndefined
                 [(''webhook_id'', JString webhookId)])
              (Some ''secret''))"

subsection \<open>Members\<close>

definition projectsSDK_getAllMembers :: "client \<Rightarrow> string option \<Rightarrow> outcome" where
  "projectsSDK_getAllMembers client projectId =
     (if authType client \<noteq> ptk \<and> \<not> truthy projectId then
        Throw (Error ''Project ID is required for bearer or PAT authentication to fetch all project members'')
      else if truthy projectId then
        Await (client_get ''/v1/projects/:project_id/members'' [(''project_id'', js projectId)])
              (Some ''members'')
      else
        Await (client_get ''/v1/projects/@this/members'' []) (Some ''members''))"

text \<open>
  The signature of \<^verbatim>\<open>getCurrentMember\<close> makes the project identifier mandatory; a
  JavaScript caller can still leave it out, so the argument is optional here as well.
\<close>

definition projectsSDK_getCurrentMember :: "client \<Rightarrow> string option \<Rightarrow> outcome" where
  "projectsSDK_getCurrentMember client projectId =
     (if authType client = ptk then
        Throw (Error ''You cannot resolve a member from a project token! You must use a bearer or pat token'')
      else
        Await (client_get ''/v1/projects/:project_id/members/@me'' [(''project_id'', js projectId)])
              (Some ''project_member''))"

subsection \<open>Secrets\<close>

definition secrets_getAll :: "client \<Rightarrow> string option \<Rightarrow> outcome" where
  "secrets_getAll client projectId =
     (if authType client \<noteq> ptk \<and> \<not> truthy projectId then
        Throw (Error ''Project ID is required for bearer or PAT authentication to fetch all secrets'')
      else if \<not> truthy projectId then
        Await (client_get ''/v1/projects/@this/secrets'' []) (Some ''secrets'')
      else
        Await (client_get ''/v1/projects/:project_id/secrets'' [(''project_id'', js projectId)])
              (Some ''secrets''))"

definition secrets_create :: "client \<Rightarrow> string \<Rightarrow> string \<Rightarrow> string option \<Rightarrow> outcome" where
  "secrets_create client name val projectId =
     (if authType client \<noteq> ptk \<and> \<not> truthy projectId then
        Throw (Error ''Project ID is required for bearer or PAT authentication to create a secret'')
      else
        (let url = \<lparr>url_template = ''/v1/projects/@this/secrets/:name'',
                    url_params = [(''name'', JString name), (''project'', js projectId)]\<rparr>;
             request = \<lparr>req_url = url,
                        req_headers = [(''Content-Type'', ''text/plain'')],
                        req_body = val,
                        req_method = PUT\<rparr>
         in Await (client_raw request) (Some ''secret'')))"

definition secrets_delete :: "client \<Rightarrow> string \<Rightarrow> string option \<Rightarrow> outcome" where
  "secrets_delete client id' projectId =
     (if authType client \<noteq> ptk \<and> \<not> truthy projectId then
        Throw (Error ''Project ID is required for bearer or PAT authentication to delete a secret'')
      else if \<not> truthy projectId then
        Await (client_delete ''/v1/projects/@this/secrets/:secret_id'' JUndefined
                 [(''secret_id'', JString id')])
              None
      else
        Await (client_delete ''/v1/projects/:project_id/secrets/:secret_id'' JUndefined
                 [(''secret_id'', JString id'), (''project_id'', js projectId)])
              None)"

section \<open>The registry SDK\<close>

definition images_getAll :: "client \<Rightarrow> string option \<Rightarrow> outcome" where
  "images_getAll client project =
     (if \<not> truthy project \<and> authType client \<noteq> ptk then
        Throw (Error ''Project is required when using a PAT or bearer'')
      else
        Await (client_get ''/v1/registry/images'' [(''project'', js project)]) (Some ''images''))"

definition images_getManifest :: "client \<Rightarrow> string \<Rightarrow> string option \<Rightarrow> outcome" where
  "images_getManifest client image' project =
     (if \<not> truthy project \<and> authType client \<noteq> ptk then
        Throw (Error ''Project is required when using a PAT or bearer'')
      else
        Await (client_get ''/v1/registry/images/:image/manifests''
                 [(''image'', JString image'), (''project'', js project)])
              (Some ''manifests''))"

definition images_delete :: "client \<Rightarrow> string \<Rightarrow> string option \<Rightarrow> outcome" where
  "images_delete client image' project =
     (if \<not> truthy project \<and> authType client \<noteq> ptk then
        Throw (Error ''Project is required when using a PAT or bearer'')
      else
        Await (client_delete ''/v1/registry/images/:image'' JUndefined
                 [(''image'', JString image'), (''project'', js project)])
              None)"


section \<open>The SDK objects\<close>

text \<open>
  \<^verbatim>\<open>projects\<close> and \<^verbatim>\<open>registry\<close> take the client and return an object of methods.  The
  local constants \<^verbatim>\<open>tokens\<close> and \<^verbatim>\<open>webhooks\<close> of \<^verbatim>\<open>sdks/projects.ts\<close> are \<open>tokens_const\<close>
  and \<open>webhooks_const\<close>; the object \<^verbatim>\<open>projectsSDK\<close> refers to the first under two keys.
\<close>

record tokens_object =
  tok_delete :: "string \<Rightarrow> string option \<Rightarrow> outcome"
  tok_get :: "string option \<Rightarrow> outcome"
  tok_create :: "int \<Rightarrow> string option \<Rightarrow> outcome"

record webhooks_object =
  wh_get :: "string option \<Rightarrow> outcome"
  wh_create :: "string \<Rightarrow> string list \<Rightarrow> string option \<Rightarrow> outcome"
  wh_edit :: "string \<Rightarrow> string option \<Rightarrow> string list option \<Rightarrow> string option \<Rightarrow> outcome"
  wh_delete :: "string \<Rightarrow> string option \<Rightarrow> outcome"
  wh_regenerateSecret :: "string \<Rightarrow> string option \<Rightarrow> outcome"

record secrets_object =
  sec_getAll :: "string option \<Rightarrow> outcome"
  sec_create :: "string \<Rightarrow> string \<Rightarrow> string option \<Rightarrow> outcome"
  sec_delete :: "string \<Rightarrow> string option \<Rightarrow> outcome"

record projectsSDK =
  getAllMembers :: "string option \<Rightarrow> outcome"
  getCurrentMember :: "string option \<Rightarrow> outcome"
  projectTokens :: tokens_object
  tokens :: tokens_object
  webhooks :: webhooks_object
  secrets :: secrets_object

record images_object =
  img_getAll :: "string option \<Rightarrow> outcome"
  img_getManifest :: "string \<Rightarrow> string option \<Rightarrow> outcome"
  img_delete :: "string \<Rightarrow> string option \<Rightarrow> outcome"

record registrySDK =
  images :: images_object

definition tokens_const :: "client \<Rightarrow> tokens_object" where
  "tokens_const client =
     \<lparr>tok_delete = tokens_delete client,
      tok_get = tokens_get client,
      tok_create = tokens_create client\<rparr>"

definition webhooks_const :: "client \<Rightarrow> webhooks_object" where
  "webhooks_const client =
     \<lparr>wh_get = webhooks_get client,
      wh_create = webhooks_create client,
      wh_edit = webhooks_edit client,
      wh_delete = webhooks_delete client,
      wh_regenerateSecret = webhooks_regenerateSecret client\<rparr>"

definition projects :: "client \<Rightarrow> projectsSDK" where
  "projects client =
     \<lparr>getAllMembers = projectsSDK_getAllMembers client,
      getCurrentMember = projectsSDK_getCurrentMember client,
      projectTokens = tokens_const client,
      tokens = tokens_const client,
      webhooks = webhooks_const client,
      secrets = \<lparr>sec_getAll = secrets_getAll client,
                 sec_create = secrets_create client,
                 sec_delete = secrets_delete client\<rparr>\<rparr>"

definition registry :: "client \<Rightarrow> registrySDK" where
  "registry client =
     \<lparr>images = \<lparr>img_getAll = images_getAll client,
                img_getManifest = images_getManifest client,
                img_delete = images_delete client\<rparr>\<rparr>"

subsection \<open>One name for every operation\<close>

text \<open>
  To speak about every operation at once, an operation is named together with the
  arguments it takes besides the project identifier.
\<close>

datatype sdk_op =
    Images_getAll
  | Images_getManifest string
  | Images_delete string
  | Tokens_delete string
  | Tokens_get
  | Tokens_create int
  | Webhooks_get
  | Webhooks_create string "string list"
  | Webhooks_edit string "string option" "string list option"
  | Webhooks_delete string
  | Webhooks_regenerateSecret string
  | GetAllMembers
  | GetCurrentMember
  | Secrets_getAll
  | Secrets_create string string
  | Secrets_delete string

fun invoke :: "client \<Rightarrow> sdk_op \<Rightarrow> string option \<Rightarrow> outcome" where
  "invoke client Images_getAll project = img_getAll (images (registry client)) project"
| "invoke client (Images_getManifest image') project =
     img_getManifest (images (registry client)) image' project"
| "invoke client (Images_delete image') project =
     img_delete (images (registry client)) image' project"
| "invoke client (Tokens_delete projectTokenId) project =
     tok_delete (tokens (projects client)) projectTokenId project"
| "invoke client Tokens_get project = tok_get (tokens (projects client)) project"
| "invoke client (Tokens_create flags) project =
     tok_create (tokens (projects client)) flags project"
| "invoke client Webhooks_get project = wh_get (webhooks (projects client)) project"
| "invoke client (Webhooks_create webhook_url events) project =
     wh_create (webhooks (projects client)) webhook_url events project"
| "invoke client (Webhooks_edit webhookId webhookUrl events) project =
     wh_edit (webhooks (projects client)) webhookId webhookUrl events project"
| "invoke client (Webhooks_delete webhookId) project =
     wh_delete (webhooks (projects client)) webhookId project"
| "invoke client (Webhooks_regenerateSecret webhookId) project =
     wh_regenerateSecret (webhooks (projects client)) webhookId project"
| "invoke client GetAllMembers project = getAllMembers (projects client) project"
| "invoke client GetCurrentMember project = getCurrentMember (projects client) project"
| "invoke client Secrets_getAll project = sec_getAll (secrets (projects client)) project"
| "invoke client (Secrets_create name val) project =
     sec_create (secrets (projects client)) name val project"
| "invoke client (Secrets_delete id') project =
     sec_delete (secrets (projects client)) id' project"

text \<open>
  The operations whose signature makes the project identifier optional: all but
  \<^verbatim>\<open>getCurrentMember\<close>.
\<close>

fun optional_project :: "sdk_op \<Rightarrow> bool" where
  "optional_project GetCurrentMember = False"
| "optional_project op = True"

text \<open>The three operations of the registry SDK.\<close>

fun registry_op :: "sdk_op \<Rightarrow> bool" where
  "registry_op Images_getAll = True"
| "registry_op (Images_getManifest image') = True"
| "registry_op (Images_delete image') = True"
| "registry_op op = False"

text \<open>
  The operations of the projects SDK that choose between two path templates by the
  project identifier: those with an optional project identifier, secret creation apart.
\<close>

fun branches :: "sdk_op \<Rightarrow> bool" where
  "branches GetCurrentMember = False"
| "branches (Secrets_create name val) = False"
| "branches op = (\<not> registry_op op)"


section \<open>Construction of the client (class Hop)\<close>

text \<open>
  The first argument of the constructor is a credential string or an options object; a
  JavaScript caller can also pass nothing (\<^verbatim>\<open>undefined\<close> or \<^verbatim>\<open>null\<close>).  In the options
  object both properties may be absent at run time.
\<close>

record PartialAPIOptions =
  opt_authentication :: "string option"
  opt_baseUrl :: "string option"

datatype hop_argument =
    NoArgument
  | AuthenticationString string
  | OptionsObject PartialAPIOptions

fun arg_truthy :: "hop_argument \<Rightarrow> bool" where
  "arg_truthy NoArgument = False"
| "arg_truthy (AuthenticationString s) = (s \<noteq> [])"
| "arg_truthy (OptionsObject opts) = True"

fun is_object :: "hop_argument \<Rightarrow> bool" where
  "is_object (OptionsObject opts) = True"
| "is_object a = False"

fun arg_authentication :: "hop_argument \<Rightarrow> string option" where
  "arg_authentication (OptionsObject opts) = opt_authentication opts"
| "arg_authentication a = None"

text \<open>
  The options passed on to \<^verbatim>\<open>new APIClient\<close>: the spread
  \<^verbatim>\<open>{baseUrl: DEFAULT_BASE_URL, ...authenticationOrOptions}\<close> for an object, and
  \<^verbatim>\<open>{authentication: authenticationOrOptions, baseUrl}\<close> otherwise, where the parameter
  \<^verbatim>\<open>baseUrl\<close> defaults to \<^verbatim>\<open>DEFAULT_BASE_URL\<close>.  That constant is declared outside the
  sources and is a parameter here.
\<close>

fun client_options :: "string \<Rightarrow> hop_argument \<Rightarrow> string option \<Rightarrow> APIClientOptions" where
  "client_options DEFAULT_BASE_URL (OptionsObject opts) baseUrl' =
     \<lparr>authentication = opt_authentication opts,
      baseUrl = (case opt_baseUrl opts of None \<Rightarrow> DEFAULT_BASE_URL | Some b \<Rightarrow> b)\<rparr>"
| "client_options DEFAULT_BASE_URL (AuthenticationString s) baseUrl' =
     \<lparr>authentication = Some s,
      baseUrl = (case baseUrl' of None \<Rightarrow> DEFAULT_BASE_URL | Some b \<Rightarrow> b)\<rparr>"
| "client_options DEFAULT_BASE_URL NoArgument baseUrl' =
     \<lparr>authentication = None,
      baseUrl = (case baseUrl' of None \<Rightarrow> DEFAULT_BASE_URL | Some b \<Rightarrow> b)\<rparr>"

text \<open>
  Modelled from the spec: the Authentication Resolver \<^verbatim>\<open>classify\<close>, which lives in
  \<^verbatim>\<open>rest/client.ts\<close> and is not among the sources.  The specification says that the kind
  is determined from the literal structure of the secret and that classification fails
  with \<open>InvalidCredential\<close> if the string is empty or not recognized as any supported
  form.  It does not list the supported forms, so the recognizer is a parameter.
\<close>

definition classify :: "(string \<Rightarrow> auth_type option) \<Rightarrow> string \<Rightarrow> error + auth_type" where
  "classify recognize secret =
     (if secret = [] then Inl InvalidCredential
      else (case recognize secret of
              None \<Rightarrow> Inl InvalidCredential
            | Some kind \<Rightarrow> Inr kind))"

text \<open>
  Modelled from the spec: the constructor of \<^verbatim>\<open>APIClient\<close> (\<^verbatim>\<open>rest/client.ts\<close>, not among
  the sources).  The specification says that the credential is classified once, at client
  construction, and that \<open>InvalidCredential\<close> is fatal to client construction.
\<close>

definition APIClient ::
  "(string \<Rightarrow> auth_type option) \<Rightarrow> APIClientOptions \<Rightarrow> error + client" where
  "APIClient recognize opts =
     (case authentication opts of
        None \<Rightarrow> Inl InvalidCredential
      | Some secret \<Rightarrow>
          (case classify recognize secret of
             Inl e \<Rightarrow> Inl e
           | Inr kind \<Rightarrow> Inr \<lparr>authType = kind, options = opts\<rparr>))"

text \<open>
  The message of the constructor's error contains an em dash, written here as the three
  bytes of its UTF-8 encoding.
\<close>

definition missing_authentication :: string where
  "missing_authentication =
     ''Missing authentication token to `new Hop()` '' @ [CHR 0xE2, CHR 0x80, CHR 0x94] @
     '' please provide a valid Project Token, User Bearer or Personal Access Token''"

text \<open>
  Of the six SDKs that the constructor attaches, \<^verbatim>\<open>projects\<close> and \<^verbatim>\<open>registry\<close> are in the
  sources.
\<close>

record hop =
  hop_client :: client
  hop_projects :: projectsSDK
  hop_registry :: registrySDK

definition Hop ::
  "string \<Rightarrow> (string \<Rightarrow> auth_type option) \<Rightarrow> hop_argument \<Rightarrow> string option \<Rightarrow> error + hop" where
  "Hop DEFAULT_BASE_URL recognize authenticationOrOptions baseUrl' =
     (if \<not> arg_truthy authenticationOrOptions \<or>
         (is_object authenticationOrOptions \<and>
          \<not> truthy (arg_authentication authenticationOrOptions))
      then Inl (Error missing_authentication)
      else
        (case APIClient recognize
                (client_options DEFAULT_BASE_URL authenticationOrOptions baseUrl') of
           Inl e \<Rightarrow> Inl e
         | Inr client \<Rightarrow>
             Inr \<lparr>hop_client = client,
                  hop_projects = projects client,
                  hop_registry = registry client\<rparr>))"

text \<open>The credential string that a constructor argument carries, if any.\<close>

fun credential :: "hop_argument \<Rightarrow> string option" where
  "credential NoArgument = None"
| "credential (AuthenticationString s) = Some s"
| "credential (OptionsObject opts) = opt_authentication opts"

section \<open>Typed channels (utils/typed-channels/index.ts)\<close>

text \<open>
  A zod schema is used through \<^verbatim>\<open>parseAsync\<close> only, which returns the parsed value or
  throws.  The object schema of the state is used as it is and through \<^verbatim>\<open>.partial()\<close>.
  zod is a library of its own, so both parsers are parameters.
\<close>

type_synonym zod_schema = "jsval \<Rightarrow> error + jsval"

record ZodObject =
  parseAsync :: zod_schema
  partial_parseAsync :: zod_schema

record StateClientDefinition =
  schema :: "ZodObject option"

record EventsClientDefinition =
  schemas :: "(string \<Rightarrow> zod_schema option) option"

text \<open>
  The methods of \<^verbatim>\<open>hop.channels\<close> (the channels SDK is not among the sources): a value of
  this type is the call that a typed method ends with.
\<close>

datatype channels_call =
    channels_publishMessage string string jsval
  | channels_delete string
  | channels_subscribeTokens string "string list"
  | channels_setState string jsval
  | channels_patchState string jsval

definition publish ::
  "EventsClientDefinition \<Rightarrow> string \<Rightarrow> string \<Rightarrow> jsval \<Rightarrow> error + channels_call" where
  "publish eventsDefinition channel event data =
     (case (case schemas eventsDefinition of None \<Rightarrow> None | Some ss \<Rightarrow> ss event) of
        Some event_schema \<Rightarrow>
          (case event_schema data of
             Inl e \<Rightarrow> Inl e
           | Inr parsed \<Rightarrow> Inr (channels_publishMessage channel event parsed))
      | None \<Rightarrow> Inr (channels_publishMessage channel event data))"

definition delete :: "string \<Rightarrow> error + channels_call" where
  "delete channel = Inr (channels_delete channel)"

definition subscribeTokens :: "string \<Rightarrow> string list \<Rightarrow> error + channels_call" where
  "subscribeTokens channel leap_tokens = Inr (channels_subscribeTokens channel leap_tokens)"

definition setState ::
  "StateClientDefinition \<Rightarrow> string \<Rightarrow> jsval \<Rightarrow> error + channels_call" where
  "setState stateDefinition channel state =
     (case schema stateDefinition of
        Some s \<Rightarrow>
          (case parseAsync s state of
             Inl e \<Rightarrow> Inl e
           | Inr parsed \<Rightarrow> Inr (channels_setState channel parsed))
      | None \<Rightarrow> Inr (channels_setState channel state))"

definition patchState ::
  "StateClientDefinition \<Rightarrow> string \<Rightarrow> jsval \<Rightarrow> error + channels_call" where
  "patchState stateDefinition channel state =
     (case schema stateDefinition of
        Some s \<Rightarrow>
          (case partial_parseAsync s state of
             Inl e \<Rightarrow> Inl e
           | Inr parsed \<Rightarrow> Inr (channels_setState channel parsed))
      | None \<Rightarrow> Inr (channels_patchState channel state))"

section \<open>Awaiting the client\<close>

text \<open>
  Modelled from the spec: the response handling of the Request Dispatcher
  (\<^verbatim>\<open>rest/client.ts\<close>, not among the sources).  The specification says that on success the
  dispatcher parses the JSON envelope and returns it typed to the declared response shape,
  that absence of the expected field is a decode failure, and that a response that does
  not match the expected shape fails with \<open>DecodeError\<close> rather than being passed through.
  The declared shape of a call is the field that the caller destructures.
\<close>

fun has_field :: "jsval \<Rightarrow> string \<Rightarrow> bool" where
  "has_field (JObject props) f =
     (case map_of props f of None \<Rightarrow> False | Some v \<Rightarrow> v \<noteq> JUndefined)"
| "has_field v f = False"

text \<open>
  Modelled from the spec: decoding an envelope against the declared response shape (see
  above); \<open>None\<close> is a call whose result the caller does not look at.
\<close>

definition decode :: "string option \<Rightarrow> jsval \<Rightarrow> error + jsval" where
  "decode shape envelope =
     (case shape of
        None \<Rightarrow> Inr envelope
      | Some f \<Rightarrow> if has_field envelope f then Inr envelope else Inl DecodeError)"

text \<open>
  Modelled from the spec: one dispatch.  The transport is a parameter: it answers a call
  with \<open>NetworkError\<close>, with \<open>APIError\<close>, or with the JSON envelope of a successful
  response, which is then decoded.
\<close>

definition dispatch ::
  "(client_call \<Rightarrow> error + jsval) \<Rightarrow> client_call \<Rightarrow> string option \<Rightarrow> error + jsval" where
  "dispatch transport call shape =
     (case transport call of
        Inl e \<Rightarrow> Inl e
      | Inr envelope \<Rightarrow> decode shape envelope)"

text \<open>
  JavaScript's destructuring \<^verbatim>\<open>const {f} = v\<close>: a property that is absent reads as
  \<^verbatim>\<open>undefined\<close>; destructuring \<^verbatim>\<open>undefined\<close> or \<^verbatim>\<open>null\<close> throws.
\<close>

fun destructure :: "jsval \<Rightarrow> string \<Rightarrow> error + jsval" where
  "destructure (JObject props) f =
     Inr (case map_of props f of None \<Rightarrow> JUndefined | Some v \<Rightarrow> v)"
| "destructure JUndefined f = Inl TypeError"
| "destructure JNull f = Inl TypeError"
| "destructure v f = Inr JUndefined"

text \<open>What the caller of an SDK method gets: the error thrown or the value returned.\<close>

fun run :: "(client_call \<Rightarrow> error + jsval) \<Rightarrow> outcome \<Rightarrow> error + jsval" where
  "run transport (Throw e) = Inl e"
| "run transport (Await call None) =
     (case dispatch transport call None of
        Inl e \<Rightarrow> Inl e
      | Inr envelope \<Rightarrow> Inr JUndefined)"
| "run transport (Await call (Some f)) =
     (case dispatch transport call (Some f) of
        Inl e \<Rightarrow> Inl e
      | Inr envelope \<Rightarrow> destructure envelope f)"


section \<open>Sample inputs\<close>

text \<open>Two clients and a recognizer of credential forms, used to instantiate the theorems.\<close>

definition bearer_client :: client where
  "bearer_client =
     \<lparr>authType = bearer,
      options = \<lparr>authentication = Some ''bearer_xyz'', baseUrl = ''https://api.hop.io''\<rparr>\<rparr>"

definition ptk_client :: client where
  "ptk_client =
     \<lparr>authType = ptk,
      options = \<lparr>authentication = Some ''ptk_abc123'', baseUrl = ''https://api.hop.io''\<rparr>\<rparr>"

definition by_prefix :: "string \<Rightarrow> auth_type option" where
  "by_prefix secret =
     (if prefix ''ptk_'' secret then Some ptk
      else if prefix ''bearer_'' secret then Some bearer
      else if prefix ''pat_'' secret then Some pat
      else None)"

definition accept_all :: ZodObject where
  "accept_all = \<lparr>parseAsync = Inr, partial_parseAsync = Inr\<rparr>"

definition empty_envelope :: "client_call \<Rightarrow> error + jsval" where
  "empty_envelope call = Inr (JObject [])"

section \<open>Evaluation lemmas\<close>

lemmas sdk_objects = projects_def registry_def tokens_const_def webhooks_const_def

lemmas sdk_methods =
  tokens_delete_def tokens_get_def tokens_create_def
  webhooks_get_def webhooks_create_def webhooks_edit_def webhooks_delete_def
  webhooks_regenerateSecret_def projectsSDK_getAllMembers_def
  secrets_getAll_def secrets_create_def secrets_delete_def
  images_getAll_def images_getManifest_def images_delete_def

lemma placeholders_eval:
  "placeholders ''/v1/registry/images'' = []"
  "placeholders ''/v1/registry/images/:image/manifests'' = [''image'']"
  "placeholders ''/v1/registry/images/:image'' = [''image'']"
  "placeholders ''/v1/projects/@this/tokens/:project_token_id'' = [''project_token_id'']"
  "placeholders ''/v1/projects/@this/tokens'' = []"
  "placeholders ''/v1/projects/@this/webhooks'' = []"
  "placeholders ''/v1/projects/@this/webhooks/:webhook_id'' = [''webhook_id'']"
  "placeholders ''/v1/projects/@this/webhooks/:webhook_id/regenerate'' = [''webhook_id'']"
  "placeholders ''/v1/projects/@this/members'' = []"
  "placeholders ''/v1/projects/@this/secrets'' = []"
  "placeholders ''/v1/projects/@this/secrets/:name'' = [''name'']"
  "placeholders ''/v1/projects/@this/secrets/:secret_id'' = [''secret_id'']"
  by (simp_all add: placeholders_def)

lemma sample_clients:
  "authType bearer_client = bearer"
  "authType ptk_client = ptk"
  by (simp_all add: bearer_client_def ptk_client_def)

section \<open>The capability gate\<close>

text \<open>
  Claim C1.  For every SDK operation with an optional project identifier (the three
  registry image operations, the three project token operations, the five webhook
  operations, \<^verbatim>\<open>getAllMembers\<close> and the three secret operations): if the client's
  credential kind is not \<open>ptk\<close> and no project identifier is supplied (it is
  \<^verbatim>\<open>undefined\<close>, or falsy in general), the method throws an \<^verbatim>\<open>Error\<close> of its own and makes
  no call to the client, so no request is dispatched.
\<close>

theorem project_id_required_without_ptk:
  assumes "authType client \<noteq> ptk" and "\<not> truthy project" and "optional_project op"
  shows "(\<exists>msg. invoke client op project = Throw (Error msg))
         \<and> calls (invoke client op project) = []"
  using assms by (cases op) (simp_all add: sdk_objects sdk_methods)

theorem project_id_required_without_ptk_witness:
  "authType bearer_client \<noteq> ptk \<and> \<not> truthy None \<and> optional_project Tokens_get
   \<and> invoke bearer_client Tokens_get None =
       Throw (Error ''Project ID is required for bearer or PAT authentication'')
   \<and> calls (invoke bearer_client Tokens_get None) = []"
  using project_id_required_without_ptk [of bearer_client None Tokens_get]
  by (simp add: sample_clients sdk_objects tokens_get_def)

text \<open>
  Claim C2.  \<^verbatim>\<open>getCurrentMember\<close> throws, before any call to the client, whenever the
  credential kind is \<open>ptk\<close>, whether or not a project identifier is supplied.
\<close>

theorem getCurrentMember_forbidden_for_ptk:
  assumes "authType client = ptk"
  shows "getCurrentMember (projects client) projectId =
           Throw (Error ''You cannot resolve a member from a project token! You must use a bearer or pat token'')
         \<and> calls (getCurrentMember (projects client) projectId) = []"
  using assms by (simp add: projects_def projectsSDK_getCurrentMember_def)

theorem getCurrentMember_forbidden_for_ptk_witness:
  "authType ptk_client = ptk
   \<and> getCurrentMember (projects ptk_client) (Some ''project_1'') =
       Throw (Error ''You cannot resolve a member from a project token! You must use a bearer or pat token'')
   \<and> getCurrentMember (projects ptk_client) None =
       Throw (Error ''You cannot resolve a member from a project token! You must use a bearer or pat token'')
   \<and> calls (getCurrentMember (projects ptk_client) (Some ''project_1'')) = []"
  using getCurrentMember_forbidden_for_ptk [of ptk_client "Some ''project_1''"]
        getCurrentMember_forbidden_for_ptk [of ptk_client None]
  by (simp add: sample_clients)

text \<open>
  Claim C4, as amended.  For a client whose credential kind is \<open>ptk\<close>, every operation
  with an optional project identifier that is invoked without one passes the gate and
  makes its call to the client, whose path template has no \<^verbatim>\<open>:project_id\<close> placeholder.
  The operations of the projects SDK use a template that starts with
  \<^verbatim>\<open>/v1/projects/@this/\<close>.  The three registry image operations have a single template
  under \<^verbatim>\<open>/v1/registry/images\<close>, with no \<^verbatim>\<open>@this\<close> segment, and pass the undefined project
  under the key \<^verbatim>\<open>project\<close> of the parameter mapping.
\<close>

theorem ptk_without_project_id_dispatches:
  assumes "authType client = ptk" and "optional_project op"
  shows "\<exists>call shape.
           invoke client op None = Await call shape
         \<and> ''project_id'' \<notin> set (placeholders (call_path call))
         \<and> (if registry_op op
             then prefix ''/v1/registry/images'' (call_path call)
                  \<and> ''@this'' \<notin> set (segments (call_path call))
                  \<and> map_of (call_params call) ''project'' = Some JUndefined
             else prefix ''/v1/projects/@this/'' (call_path call)
                  \<and> ''@this'' \<in> set (segments (call_path call)))"
  using assms by (cases op) (simp_all add: sdk_objects sdk_methods placeholders_eval)

theorem ptk_without_project_id_dispatches_witness:
  "authType ptk_client = ptk \<and> optional_project (Tokens_create 3)
   \<and> optional_project (Images_getManifest ''web'')
   \<and> invoke ptk_client (Tokens_create 3) None =
       Await (client_post ''/v1/projects/@this/tokens'' (JObject [(''flags'', JNumber 3)]) [])
             (Some ''project_token'')
   \<and> prefix ''/v1/projects/@this/'' ''/v1/projects/@this/tokens''
   \<and> invoke ptk_client (Images_getManifest ''web'') None =
       Await (client_get ''/v1/registry/images/:image/manifests''
                [(''image'', JString ''web''), (''project'', JUndefined)])
             (Some ''manifests'')"
  using ptk_without_project_id_dispatches [of ptk_client "Tokens_create 3"]
        ptk_without_project_id_dispatches [of ptk_client "Images_getManifest ''web''"]
  by (simp add: sample_clients sdk_objects tokens_create_def images_getManifest_def)

text \<open>
  Claim C4 as it was stated fails for the registry: with a \<open>ptk\<close> credential and no
  project identifier, \<^verbatim>\<open>registry.images.getAll\<close> calls the client on a path that has no
  \<^verbatim>\<open>@this\<close> segment.
\<close>

theorem registry_path_has_no_this_segment:
  "authType ptk_client = ptk \<and> optional_project Images_getAll
   \<and> invoke ptk_client Images_getAll None =
       Await (client_get ''/v1/registry/images'' [(''project'', JUndefined)]) (Some ''images'')
   \<and> ''@this'' \<notin> set (segments ''/v1/registry/images'')"
  by (simp add: sample_clients registry_def images_getAll_def)

section \<open>Path templates\<close>

text \<open>
  Claim C9.  For every operation of the projects SDK that chooses its path template by
  the project identifier (tokens get, create and delete; webhooks get, create, edit,
  delete and regenerateSecret; \<^verbatim>\<open>getAllMembers\<close>; secrets getAll and delete) and for every
  credential kind, \<open>ptk\<close> included: with a project identifier supplied, the call goes to
  the \<^verbatim>\<open>/v1/projects/:project_id...\<close> template with that identifier under \<^verbatim>\<open>project_id\<close>.
  With the identifier omitted, no call is made unless the kind is \<open>ptk\<close>, and then the
  call goes to the same endpoint under \<^verbatim>\<open>/v1/projects/@this...\<close>, with the same method,
  body and remaining parameters.  A project identifier is a non-empty string.
\<close>

theorem project_id_selects_path_template:
  assumes "branches op" and "p \<noteq> []"
  shows "\<exists>rest shape with_id.
           invoke client op (Some p) = Await with_id shape
         \<and> call_path with_id = ''/v1/projects/:project_id'' @ rest
         \<and> map_of (call_params with_id) ''project_id'' = Some (JString p)
         \<and> (authType client \<noteq> ptk \<longrightarrow> calls (invoke client op None) = [])
         \<and> (authType client = ptk \<longrightarrow>
              (\<exists>without_id.
                  invoke client op None = Await without_id shape
                \<and> call_path without_id = ''/v1/projects/@this'' @ rest
                \<and> call_method without_id = call_method with_id
                \<and> call_body without_id = call_body with_id
                \<and> call_params without_id =
                    filter (\<lambda>kv. fst kv \<noteq> ''project_id'') (call_params with_id)))"
  using assms by (cases op) (simp_all add: sdk_objects sdk_methods)

theorem project_id_selects_path_template_witness:
  "branches (Webhooks_delete ''webhook_9'') \<and> ''project_1'' \<noteq> []
   \<and> invoke ptk_client (Webhooks_delete ''webhook_9'') (Some ''project_1'') =
       Await (client_delete ''/v1/projects/:project_id/webhooks/:webhook_id'' JUndefined
                [(''project_id'', JString ''project_1''), (''webhook_id'', JString ''webhook_9'')])
             None
   \<and> invoke ptk_client (Webhooks_delete ''webhook_9'') None =
       Await (client_delete ''/v1/projects/@this/webhooks/:webhook_id'' JUndefined
                [(''webhook_id'', JString ''webhook_9'')])
             None
   \<and> invoke bearer_client (Webhooks_delete ''webhook_9'') (Some ''project_1'') =
       Await (client_delete ''/v1/projects/:project_id/webhooks/:webhook_id'' JUndefined
                [(''project_id'', JString ''project_1''), (''webhook_id'', JString ''webhook_9'')])
             None
   \<and> calls (invoke bearer_client (Webhooks_delete ''webhook_9'') None) = []"
  using project_id_selects_path_template [of "Webhooks_delete ''webhook_9''" "''project_1''" ptk_client]
        project_id_selects_path_template [of "Webhooks_delete ''webhook_9''" "''project_1''" bearer_client]
  by (simp add: sample_clients sdk_objects webhooks_delete_def)

section \<open>Secret creation\<close>

text \<open>
  Claim C3.  Every call of \<^verbatim>\<open>secrets.create\<close> that passes the gate sends one raw request
  with method PUT, the single header \<^verbatim>\<open>Content-Type: text/plain\<close> and the secret value
  itself as the body: the value is not wrapped in an object and not encoded.
\<close>

theorem secrets_create_sends_raw_text:
  assumes "authType client = ptk \<or> truthy projectId"
  shows "\<exists>u. sec_create (secrets (projects client)) name val projectId =
                Await (client_raw \<lparr>req_url = u,
                                   req_headers = [(''Content-Type'', ''text/plain'')],
                                   req_body = val,
                                   req_method = PUT\<rparr>)
                      (Some ''secret'')"
  using assms by (auto simp add: projects_def secrets_create_def)

theorem secrets_create_sends_raw_text_witness:
  "(authType bearer_client = ptk \<or> truthy (Some ''project_1''))
   \<and> sec_create (secrets (projects bearer_client)) ''API_KEY'' ''s3cr3t value'' (Some ''project_1'') =
       Await (client_raw
                \<lparr>req_url = \<lparr>url_template = ''/v1/projects/@this/secrets/:name'',
                             url_params = [(''name'', JString ''API_KEY''),
                                           (''project'', JString ''project_1'')]\<rparr>,
                 req_headers = [(''Content-Type'', ''text/plain'')],
                 req_body = ''s3cr3t value'',
                 req_method = PUT\<rparr>)
             (Some ''secret'')"
  using secrets_create_sends_raw_text
          [of bearer_client "Some ''project_1''" "''API_KEY''" "''s3cr3t value''"]
  by (simp add: sample_clients projects_def secrets_create_def)

text \<open>
  Claim C10.  Every call of \<^verbatim>\<open>secrets.create\<close> that passes the gate, with or without a
  project identifier, builds its URL from the template
  \<^verbatim>\<open>/v1/projects/@this/secrets/:name\<close>, whose only placeholder is \<^verbatim>\<open>name\<close>.  The parameter
  mapping holds the secret name under \<^verbatim>\<open>name\<close> and the project identifier under
  \<^verbatim>\<open>project\<close>, which is not a placeholder of the template.
\<close>

theorem secrets_create_uses_this_template:
  assumes "authType client = ptk \<or> truthy projectId"
  shows "\<exists>r. sec_create (secrets (projects client)) name val projectId =
                Await (client_raw r) (Some ''secret'')
            \<and> url_template (req_url r) = ''/v1/projects/@this/secrets/:name''
            \<and> url_params (req_url r) = [(''name'', JString name), (''project'', js projectId)]
            \<and> placeholders (url_template (req_url r)) = [''name'']
            \<and> ''project'' \<notin> set (placeholders (url_template (req_url r)))"
  using assms by (auto simp add: projects_def secrets_create_def placeholders_eval)

theorem secrets_create_uses_this_template_witness:
  "(authType ptk_client = ptk \<or> truthy (Some ''project_1''))
   \<and> calls (sec_create (secrets (projects ptk_client)) ''API_KEY'' ''v'' (Some ''project_1'')) =
       [client_raw
          \<lparr>req_url = \<lparr>url_template = ''/v1/projects/@this/secrets/:name'',
                       url_params = [(''name'', JString ''API_KEY''),
                                     (''project'', JString ''project_1'')]\<rparr>,
           req_headers = [(''Content-Type'', ''text/plain'')],
           req_body = ''v'',
           req_method = PUT\<rparr>]
   \<and> placeholders ''/v1/projects/@this/secrets/:name'' = [''name'']"
  using secrets_create_uses_this_template [of ptk_client "Some ''project_1''" "''API_KEY''" "''v''"]
  by (simp add: sample_clients projects_def secrets_create_def placeholders_eval)

section \<open>The deprecated alias\<close>

text \<open>
  Claim C8.  The fields \<^verbatim>\<open>projectTokens\<close> and \<^verbatim>\<open>tokens\<close> of the projects SDK are the same
  object: for every client and every argument, \<^verbatim>\<open>get\<close>, \<^verbatim>\<open>create\<close> and \<^verbatim>\<open>delete\<close> called
  through one behave as called through the other.
\<close>

theorem projectTokens_is_tokens:
  "projectTokens (projects client) = tokens (projects client)
   \<and> tok_get (projectTokens (projects client)) projectId =
       tok_get (tokens (projects client)) projectId
   \<and> tok_create (projectTokens (projects client)) flags projectId =
       tok_create (tokens (projects client)) flags projectId
   \<and> tok_delete (projectTokens (projects client)) projectTokenId projectId =
       tok_delete (tokens (projects client)) projectTokenId projectId"
  by (simp add: projects_def)

theorem projectTokens_is_tokens_witness:
  "tok_get (projectTokens (projects ptk_client)) None =
     Await (client_get ''/v1/projects/@this/tokens'' []) (Some ''project_tokens'')
   \<and> tok_get (tokens (projects ptk_client)) None =
     Await (client_get ''/v1/projects/@this/tokens'' []) (Some ''project_tokens'')"
  using projectTokens_is_tokens [of ptk_client None 0 "''''"]
  by (simp add: sample_clients projects_def tokens_const_def tokens_get_def)

section \<open>Client construction\<close>

text \<open>
  Claim C5.  Constructing a client fails when the credential is missing or empty (the
  constructor of \<^verbatim>\<open>Hop\<close> throws) and when the credential is not recognized as a supported
  form (the constructor of the API client fails with \<open>InvalidCredential\<close>); whenever
  construction succeeds, the credential is a non-empty string that is recognized, and the
  client carries the kind it was recognized as.
\<close>

theorem Hop_requires_valid_credential:
  "(credential a = None \<or> credential a = Some [] \<longrightarrow>
      Hop DEFAULT_BASE_URL recognize a baseUrl' = Inl (Error missing_authentication))
   \<and> (\<forall>s. credential a = Some s \<and> s \<noteq> [] \<and> recognize s = None \<longrightarrow>
          Hop DEFAULT_BASE_URL recognize a baseUrl' = Inl InvalidCredential)
   \<and> (\<forall>h. Hop DEFAULT_BASE_URL recognize a baseUrl' = Inr h \<longrightarrow>
          (\<exists>s. credential a = Some s \<and> s \<noteq> []
             \<and> recognize s = Some (authType (hop_client h))))"
  by (cases a)
     (auto simp add: Hop_def APIClient_def classify_def split: option.splits sum.splits)

theorem Hop_requires_valid_credential_witness:
  "Hop ''https://api.hop.io'' by_prefix NoArgument None = Inl (Error missing_authentication)
   \<and> Hop ''https://api.hop.io'' by_prefix (AuthenticationString '''') None =
       Inl (Error missing_authentication)
   \<and> Hop ''https://api.hop.io'' by_prefix
        (OptionsObject \<lparr>opt_authentication = None, opt_baseUrl = Some ''http://localhost''\<rparr>) None =
       Inl (Error missing_authentication)
   \<and> Hop ''https://api.hop.io'' by_prefix (AuthenticationString ''hunter2'') None =
       Inl InvalidCredential
   \<and> (\<exists>h. Hop ''https://api.hop.io'' by_prefix (AuthenticationString ''ptk_abc123'') None = Inr h
           \<and> authType (hop_client h) = ptk)"
  using Hop_requires_valid_credential [of NoArgument "''https://api.hop.io''" by_prefix None]
        Hop_requires_valid_credential [of "AuthenticationString ''''" "''https://api.hop.io''" by_prefix None]
        Hop_requires_valid_credential
          [of "OptionsObject \<lparr>opt_authentication = None, opt_baseUrl = Some ''http://localhost''\<rparr>"
              "''https://api.hop.io''" by_prefix None]
        Hop_requires_valid_credential [of "AuthenticationString ''hunter2''" "''https://api.hop.io''" by_prefix None]
        Hop_requires_valid_credential [of "AuthenticationString ''ptk_abc123''" "''https://api.hop.io''" by_prefix None]
  by (simp add: by_prefix_def Hop_def APIClient_def classify_def)

section \<open>Typed channels\<close>

text \<open>
  Claim C6.  The claim is that a validation schema changes the payload only, never the
  channel operation that is invoked.  That holds for \<^verbatim>\<open>publish\<close> and \<^verbatim>\<open>setState\<close>.  For
  \<^verbatim>\<open>patchState\<close> it does not: with a schema that accepts the state the method ends with
  \<^verbatim>\<open>hop.channels.setState\<close>, and without a schema with \<^verbatim>\<open>hop.channels.patchState\<close>.
\<close>

theorem patchState_with_schema_calls_setState:
  "patchState \<lparr>schema = Some accept_all\<rparr> ''room'' (JObject [(''count'', JNumber 1)]) =
     Inr (channels_setState ''room'' (JObject [(''count'', JNumber 1)]))
   \<and> patchState \<lparr>schema = None\<rparr> ''room'' (JObject [(''count'', JNumber 1)]) =
     Inr (channels_patchState ''room'' (JObject [(''count'', JNumber 1)]))"
  by (simp add: patchState_def accept_all_def)

lemma publish_same_operation:
  "publish eventsDefinition channel event data = Inr call \<Longrightarrow>
   \<exists>payload. call = channels_publishMessage channel event payload"
  by (auto simp add: publish_def split: option.splits sum.splits)

lemma setState_same_operation:
  "setState stateDefinition channel state = Inr call \<Longrightarrow>
   \<exists>payload. call = channels_setState channel payload"
  by (auto simp add: setState_def split: option.splits sum.splits)

section \<open>Decoding the response\<close>

text \<open>
  Claim C7.  When an SDK operation has made its call, the response is successful and its
  JSON envelope lacks the field that the operation destructures (\<^verbatim>\<open>images\<close>,
  \<^verbatim>\<open>project_tokens\<close>, \<^verbatim>\<open>project_member\<close>, ...), the caller gets \<open>DecodeError\<close>, not a value.
\<close>

theorem missing_field_is_decode_error:
  assumes "invoke client op projectId = Await call (Some f)"
    and "transport call = Inr envelope"
    and "\<not> has_field envelope f"
  shows "run transport (invoke client op projectId) = Inl DecodeError"
  using assms by (simp add: dispatch_def decode_def)

theorem missing_field_is_decode_error_witness:
  "invoke ptk_client Images_getAll None =
     Await (client_get ''/v1/registry/images'' [(''project'', JUndefined)]) (Some ''images'')
   \<and> empty_envelope (client_get ''/v1/registry/images'' [(''project'', JUndefined)]) = Inr (JObject [])
   \<and> \<not> has_field (JObject []) ''images''
   \<and> run empty_envelope (invoke ptk_client Images_getAll None) = Inl DecodeError"
  using missing_field_is_decode_error
          [of ptk_client Images_getAll None
              "client_get ''/v1/registry/images'' [(''project'', JUndefined)]" "''images''"
              empty_envelope "JObject []"]
  by (simp add: sample_clients registry_def images_getAll_def empty_envelope_def)

end
